theory Spec2Isabelle
  imports Main
begin

section \<open>JavaScript values used by the guard\<close>

text \<open>
  The fields \<open>type\<close> and \<open>value\<close> of a claim are compared with the abstract (loose)
  equality \<open>==\<close>. They are modelled as the primitives on which \<open>==\<close> performs no numeric
  conversion: \<open>undefined\<close> (also an absent field), \<open>null\<close> and strings. On these,
  \<open>undefined\<close> and \<open>null\<close> are equal to themselves and to each other and to nothing
  else, and two strings are equal when they are the same sequence of characters.
  Numbers and booleans as claim fields are outside the model: comparing them with a
  string goes through a string-to-double conversion.
\<close>

datatype jsval = JUndefined | JNull | JStr string

fun nullish :: "jsval \<Rightarrow> bool" where
  "nullish (JStr a) = False"
| "nullish x = True"

fun loose_eq :: "jsval \<Rightarrow> jsval \<Rightarrow> bool" where
  "loose_eq (JStr a) (JStr b) = (a = b)"
| "loose_eq (JStr a) y = False"
| "loose_eq x y = nullish y"

text \<open>
  Optional string fields (\<open>title\<close>, \<open>url\<close>, \<open>redirect\<close>, \<open>state\<close>): \<open>None\<close> is an
  absent field. In a condition an absent field and the empty string are both falsy;
  concatenated to a string an absent field reads \<open>undefined\<close>.
\<close>

fun truthy :: "string option \<Rightarrow> bool" where
  "truthy None = False"
| "truthy (Some s) = (s \<noteq> [])"

fun js_string :: "string option \<Rightarrow> string" where
  "js_string None = ''undefined''"
| "js_string (Some s) = s"

datatype js_error = TypeError | ReferenceError | Error string

section \<open>Data model\<close>

text \<open>A claim held by a token: \<open>{type, value}\<close>.\<close>

record claim =
  c_type :: jsval
  c_value :: jsval

text \<open>
  A token: \<open>{expires_at, claims}\<close>. Both fields may be absent: \<open>check\<close> itself stores
  the object \<open>{}\<close>. \<open>expires_at\<close> is compared with \<open>===\<close>; it is an integer time stamp
  here, on which strict equality is equality, and two absent fields are strictly equal.
\<close>

record token =
  expires_at :: "int option"
  claims :: "claim list option"

text \<open>A claim requirement of a state: \<open>{type, value, redirect?, state?}\<close>.\<close>

record claim_req =
  req_type :: jsval
  req_value :: jsval
  req_redirect :: "string option"
  req_state :: "string option"

text \<open>The \<open>data\<close> object of a state and the state itself (\<open>toState\<close>).\<close>

record state_data =
  authenticate :: "bool option"
  data_claims :: "claim_req list option"
  title :: "string option"

record nav_state =
  name :: string
  url :: "string option"
  data :: "state_data option"

text \<open>The messages handed to \<open>debug\<close>, one constructor per call site, with its arguments.\<close>

datatype dbg =
  CheckingToken
| TokenChanged token
| StateChange string string
| NavUnauth string
| NavLogin string
| ClaimFound jsval jsval
| ClaimRedirect jsval jsval string
| ClaimState jsval jsval string
| NavTo string

text \<open>
  Everything the functions read or write outside their arguments:
  \<open>$rootScope.token\<close>, \<open>$rootScope.stateName\<close>, \<open>document.title\<close>, the values assigned
  to \<open>window.location\<close> (oldest first), whether \<open>preventDefault()\<close> was called on the
  navigation event, the names passed to the router's \<open>go\<close> (oldest first), and the
  debug log.
\<close>

record world =
  rootScope_token :: "token option"
  rootScope_stateName :: "string option"
  document_title :: string
  window_location :: "string list"
  defaultPrevented :: bool
  state_go :: "string list"
  debug_log :: "dbg list"

text \<open>
  A call either returns or throws; a throw keeps the effects made before it.
\<close>

datatype 'a completion = Normal 'a | Throw js_error world

fun world_of :: "world completion \<Rightarrow> world" where
  "world_of (Normal w) = w"
| "world_of (Throw e w) = w"

fun thrown :: "'a completion \<Rightarrow> js_error option" where
  "thrown (Normal x) = None"
| "thrown (Throw e w) = Some e"

text \<open>
  \<open>authenticateState\<close> names a variable \<open>self\<close> that no enclosing scope of the file
  declares, so it is the global of that name: unbound (a ReferenceError), an object
  without a router under \<open>$state\<close> (in a browser \<open>self\<close> is the window; reading \<open>go\<close>
  of \<open>undefined\<close> is a TypeError), or an object on which the host has put the router.
\<close>

datatype global_self = SelfUnbound | SelfWithoutRouter | SelfWithRouter

definition debug :: "dbg \<Rightarrow> world \<Rightarrow> world" where
  "debug m w = w\<lparr>debug_log := debug_log w @ [m]\<rparr>"

section \<open>Token refresh: check\<close>

definition empty_token :: token where
  "empty_token = \<lparr>expires_at = None, claims = None\<rparr>"

text \<open>\<open>t || {}\<close>\<close>

fun or_empty :: "token option \<Rightarrow> token" where
  "or_empty None = empty_token"
| "or_empty (Some t) = t"

text \<open>
  \<open>check()\<close>; the first argument is what the caller-supplied \<open>getToken()\<close> returns
  (\<open>None\<close> for a falsy result).
\<close>

definition check :: "token option \<Rightarrow> world \<Rightarrow> world" where
  "check getToken w =
    (let w1 = debug CheckingToken w;
         origToken = rootScope_token w1
     in if getToken = None \<and> origToken = None then w1
        else
          let tok = or_empty getToken;
              orig = or_empty origToken
          in if expires_at tok = expires_at orig then w1
             else (debug (TokenChanged tok) w1)\<lparr>rootScope_token := Some tok\<rparr>)"

section \<open>State annotation: onStateChange\<close>

text \<open>\<open>s.replace(/\./g, '-')\<close>\<close>

definition replace_dots :: "string \<Rightarrow> string" where
  "replace_dots s = map (\<lambda>c. if c = CHR ''.'' then CHR ''-'' else c) s"

definition onStateChange :: "string \<Rightarrow> nav_state \<Rightarrow> world \<Rightarrow> world" where
  "onStateChange app toState w =
    (if name toState = [] then w
     else
       let w1 = debug (StateChange app (name toState)) w;
           w2 = (case data toState of
                   None \<Rightarrow> w1
                 | Some d \<Rightarrow>
                     if truthy (title d) then w1\<lparr>document_title := js_string (title d)\<rparr>
                     else w1)
       in w2\<lparr>rootScope_stateName := Some (replace_dots (name toState))\<rparr>)"

section \<open>Navigation guard: authenticateState\<close>

text \<open>
  The inner \<open>token.claims.forEach\<close>: every claim of the token is visited; \<open>found\<close> is
  set at the first one that matches and the later ones return at once.
\<close>

fun search_claims :: "claim_req \<Rightarrow> claim list \<Rightarrow> bool \<Rightarrow> bool" where
  "search_claims r [] found = found"
| "search_claims r (c # cs) found =
     search_claims r cs
       (if found then found
        else if loose_eq (req_type r) (c_type c) \<and> loose_eq (req_value r) (c_value c) then True
        else found)"

text \<open>
  The callback of the outer \<open>claims.forEach\<close>, on the pair of the flag \<open>claimFailed\<close>
  and the world.
\<close>

definition on_claim ::
  "global_self \<Rightarrow> token \<Rightarrow> claim_req \<Rightarrow> bool \<times> world \<Rightarrow> (bool \<times> world) completion" where
  "on_claim self tok r s =
    (case s of (claimFailed, w) \<Rightarrow>
      if claimFailed then Normal (claimFailed, w)
      else
        (case claims tok of
           None \<Rightarrow> Throw TypeError w
         | Some cs \<Rightarrow>
             if search_claims r cs False
             then Normal (claimFailed, debug (ClaimFound (req_type r) (req_value r)) w)
             else if truthy (req_redirect r) then
               Normal (True,
                 (debug (ClaimRedirect (req_type r) (req_value r) (js_string (req_redirect r)))
                   (w\<lparr>defaultPrevented := True\<rparr>))
                 \<lparr>window_location := window_location w @ [js_string (req_redirect r)]\<rparr>)
             else if truthy (req_state r) then
               (let w1 = debug (ClaimState (req_type r) (req_value r) (js_string (req_state r)))
                           (w\<lparr>defaultPrevented := True\<rparr>)
                in case self of
                     SelfUnbound \<Rightarrow> Throw ReferenceError w1
                   | SelfWithoutRouter \<Rightarrow> Throw TypeError w1
                   | SelfWithRouter \<Rightarrow>
                       Normal (True, w1\<lparr>state_go := state_go w1 @ [js_string (req_state r)]\<rparr>))
             else Throw (Error ''somebody didnt specify a claim.state or claim.redirect'') w))"

text \<open>\<open>claims.forEach\<close>: the callback on every requirement in order, until one throws.\<close>

fun forEach_claims ::
  "global_self \<Rightarrow> token \<Rightarrow> claim_req list \<Rightarrow> bool \<times> world \<Rightarrow> (bool \<times> world) completion" where
  "forEach_claims self tok [] s = Normal s"
| "forEach_claims self tok (r # rs) s =
     (case on_claim self tok r s of
        Normal s' \<Rightarrow> forEach_claims self tok rs s'
      | Throw e w \<Rightarrow> Throw e w)"

text \<open>\<open>toState.data || {}\<close> and \<open>data.claims || []\<close>\<close>

fun data_or_empty :: "state_data option \<Rightarrow> state_data" where
  "data_or_empty None = \<lparr>authenticate = None, data_claims = None, title = None\<rparr>"
| "data_or_empty (Some d) = d"

fun claims_or_empty :: "claim_req list option \<Rightarrow> claim_req list" where
  "claims_or_empty None = []"
| "claims_or_empty (Some rs) = rs"

definition authenticateState ::
  "global_self \<Rightarrow> token option \<Rightarrow> nav_state \<Rightarrow> world \<Rightarrow> world completion" where
  "authenticateState self tok toState w =
    (let d = data_or_empty (data toState)
     in if authenticate d \<noteq> Some True then Normal (debug (NavUnauth (name toState)) w)
        else
          (case tok of
             None \<Rightarrow>
               Normal ((debug (NavLogin (name toState)) (w\<lparr>defaultPrevented := True\<rparr>))
                 \<lparr>window_location :=
                    window_location w @ [''/login?redirect='' @ js_string (url toState)]\<rparr>)
           | Some t \<Rightarrow>
               (case forEach_claims self t (claims_or_empty (data_claims d)) (False, w) of
                  Throw e w' \<Rightarrow> Throw e w'
                | Normal s \<Rightarrow> Normal (debug (NavTo (name toState)) (snd s)))))"

text \<open>
  The \<open>$stateChangeStart\<close> listener of \<open>defaultRun\<close>: annotate, then guard with the
  token currently on the root scope.
\<close>

definition stateChangeStart ::
  "global_self \<Rightarrow> string \<Rightarrow> nav_state \<Rightarrow> world \<Rightarrow> world completion" where
  "stateChangeStart self app toState w =
    (let w1 = onStateChange app toState w
     in authenticateState self (rootScope_token w1) toState w1)"

section \<open>Example inputs\<close>

text \<open>
  The token, the world and the guarded state of the scenarios of the specification:
  a token that expires at 100 and holds the claim (role, admin); a world in which
  nothing has happened yet; a state at \<open>/secret\<close> that asks for authentication and for
  the given requirements.
\<close>

definition admin_token :: token where
  "admin_token = \<lparr>expires_at = Some 100,
     claims = Some [\<lparr>c_type = JStr ''role'', c_value = JStr ''admin''\<rparr>]\<rparr>"

definition initial_world :: world where
  "initial_world = \<lparr>rootScope_token = None, rootScope_stateName = None, document_title = [],
     window_location = [], defaultPrevented = False, state_go = [], debug_log = []\<rparr>"

definition guarded_state :: "claim_req list \<Rightarrow> nav_state" where
  "guarded_state rs = \<lparr>name = ''app.secret'', url = Some ''/secret'',
     data = Some \<lparr>authenticate = Some True, data_claims = Some rs, title = Some ''Secret''\<rparr>\<rparr>"

definition require :: "string \<Rightarrow> string \<Rightarrow> string option \<Rightarrow> string option \<Rightarrow> claim_req" where
  "require t v r s = \<lparr>req_type = JStr t, req_value = JStr v, req_redirect = r, req_state = s\<rparr>"

text \<open>A state that asks for no authentication, with requirements all the same.\<close>

definition public_state :: "claim_req list \<Rightarrow> nav_state" where
  "public_state rs = \<lparr>name = ''app.public'', url = Some ''/public'',
     data = Some \<lparr>authenticate = Some False, data_claims = Some rs, title = None\<rparr>\<rparr>"

section \<open>The loops\<close>

lemma search_claims_True: "search_claims r cs True = True"
  by (induction cs) auto

text \<open>The inner loop decides membership, whatever the order of the token's claims.\<close>

lemma search_claims_iff:
  "search_claims r cs found =
     (found \<or> (\<exists>c\<in>set cs. loose_eq (req_type r) (c_type c) \<and> loose_eq (req_value r) (c_value c)))"
  by (induction cs arbitrary: found) auto

text \<open>Once \<open>claimFailed\<close> is set, the rest of the outer loop does nothing.\<close>

lemma forEach_claims_failed: "forEach_claims self tok rs (True, w) = Normal (True, w)"
  by (induction rs) (simp_all add: on_claim_def)

lemma forEach_claims_append:
  "forEach_claims self tok (xs @ ys) s =
     (case forEach_claims self tok xs s of
        Normal s' \<Rightarrow> forEach_claims self tok ys s'
      | Throw e w \<Rightarrow> Throw e w)"
  by (induction xs arbitrary: s) (auto split: completion.splits)

text \<open>Requirements that are met only add their log lines.\<close>

lemma forEach_claims_met:
  assumes "claims tok = Some cs" and "\<forall>r\<in>set rs. search_claims r cs False"
  shows "forEach_claims self tok rs (False, w) =
     Normal (False,
       w\<lparr>debug_log := debug_log w @ map (\<lambda>r. ClaimFound (req_type r) (req_value r)) rs\<rparr>)"
  using assms
  by (induction rs arbitrary: w) (simp_all add: on_claim_def debug_def)

text \<open>An unmet requirement either throws or sets \<open>claimFailed\<close>.\<close>

lemma on_claim_unmet:
  assumes "claims tok = Some cs" and "\<not> search_claims r cs False"
  shows "(\<exists>e w'. on_claim self tok r (False, w) = Throw e w')
       \<or> (\<exists>w'. on_claim self tok r (False, w) = Normal (True, w'))"
  using assms by (cases self) (simp_all add: on_claim_def Let_def)

text \<open>The whole loop is the callback at the first unmet requirement.\<close>

lemma forEach_claims_first_unmet:
  assumes "claims tok = Some cs" and "\<forall>p\<in>set pre. search_claims p cs False"
    and "\<not> search_claims r cs False"
  shows "forEach_claims self tok (pre @ r # post) (False, w) =
     on_claim self tok r
       (False, w\<lparr>debug_log := debug_log w @ map (\<lambda>p. ClaimFound (req_type p) (req_value p)) pre\<rparr>)"
proof -
  let ?w1 = "w\<lparr>debug_log := debug_log w @ map (\<lambda>p. ClaimFound (req_type p) (req_value p)) pre\<rparr>"
  have pre: "forEach_claims self tok pre (False, w) = Normal (False, ?w1)"
    using assms(1,2) by (rule forEach_claims_met)
  from on_claim_unmet [OF assms(1,3), of self ?w1]
  show ?thesis
    by (auto simp: forEach_claims_append pre forEach_claims_failed)
qed

lemma find_Some_split:
  "find P xs = Some x \<Longrightarrow> \<exists>pre post. xs = pre @ x # post \<and> P x \<and> (\<forall>p\<in>set pre. \<not> P p)"
proof (induction xs)
  case Nil
  then show ?case by simp
next
  case (Cons a xs)
  show ?case
  proof (cases "P a")
    case True
    with Cons.prems have "a = x" by simp
    with True have "a # xs = [] @ x # xs \<and> P x \<and> (\<forall>p\<in>set []. \<not> P p)" by simp
    then show ?thesis by blast
  next
    case False
    with Cons.prems have "find P xs = Some x" by simp
    from Cons.IH [OF this] obtain pre post
      where "xs = pre @ x # post" "P x" "\<forall>p\<in>set pre. \<not> P p" by blast
    with False have "a # xs = (a # pre) @ x # post \<and> P x \<and> (\<forall>p\<in>set (a # pre). \<not> P p)"
      by simp
    then show ?thesis by blast
  qed
qed

lemma find_None_all: "find P xs = None \<Longrightarrow> \<forall>x\<in>set xs. \<not> P x"
  by (induction xs) (auto split: if_splits)


lemma forEach_claims_after_unmet:
  assumes "claims tok = Some cs" and "\<not> search_claims r cs False"
  shows "forEach_claims self tok (r # post) s = forEach_claims self tok [r] s"
proof (cases s)
  case (Pair failed w)
  show ?thesis
  proof (cases failed)
    case True
    with Pair show ?thesis by (simp add: on_claim_def forEach_claims_failed)
  next
    case False
    from on_claim_unmet [OF assms, of self w] False Pair show ?thesis
      by (auto simp: forEach_claims_failed)
  qed
qed

section \<open>The guard at the first unmet requirement\<close>

text \<open>
  In the lemmas and theorems below a requirement is \<^emph>\<open>met\<close> when the inner loop finds a
  matching claim (\<open>search_claims r cs False\<close>), and a fallback is \<^emph>\<open>set\<close> when the field
  is truthy: present and not the empty string.
\<close>

lemma unmet_requirement_redirect:
  assumes "authenticate (data_or_empty (data toState)) = Some True"
    and "claims tok = Some cs"
    and "claims_or_empty (data_claims (data_or_empty (data toState))) = pre @ r # post"
    and "\<forall>p\<in>set pre. search_claims p cs False"
    and "\<not> search_claims r cs False"
    and "req_redirect r = Some target" and "target \<noteq> []"
  shows "authenticateState self (Some tok) toState w =
     Normal (w\<lparr>defaultPrevented := True,
               window_location := window_location w @ [target],
               debug_log := debug_log w
                 @ map (\<lambda>p. ClaimFound (req_type p) (req_value p)) pre
                 @ [ClaimRedirect (req_type r) (req_value r) target, NavTo (name toState)]\<rparr>)"
proof -
  have "forEach_claims self tok (pre @ r # post) (False, w) =
      Normal (True, w\<lparr>defaultPrevented := True,
               window_location := window_location w @ [target],
               debug_log := debug_log w
                 @ map (\<lambda>p. ClaimFound (req_type p) (req_value p)) pre
                 @ [ClaimRedirect (req_type r) (req_value r) target]\<rparr>)"
    using assms(2,5,6,7)
    by (simp add: forEach_claims_first_unmet [OF assms(2,4,5)] on_claim_def debug_def)
  with assms(1,3) show ?thesis
    by (simp add: authenticateState_def debug_def)
qed

text \<open>
  With \<open>state\<close> set and \<open>redirect\<close> not, the event is cancelled first and then
  \<open>self.$state.go\<close> is evaluated: the router is reached only when the global \<open>self\<close>
  carries it.
\<close>

lemma unmet_requirement_state:
  assumes "authenticate (data_or_empty (data toState)) = Some True"
    and "claims tok = Some cs"
    and "claims_or_empty (data_claims (data_or_empty (data toState))) = pre @ r # post"
    and "\<forall>p\<in>set pre. search_claims p cs False"
    and "\<not> search_claims r cs False"
    and "\<not> truthy (req_redirect r)"
    and "req_state r = Some target" and "target \<noteq> []"
  shows "authenticateState self (Some tok) toState w =
     (let w1 = w\<lparr>defaultPrevented := True,
                 debug_log := debug_log w
                   @ map (\<lambda>p. ClaimFound (req_type p) (req_value p)) pre
                   @ [ClaimState (req_type r) (req_value r) target]\<rparr>
      in case self of
           SelfUnbound \<Rightarrow> Throw ReferenceError w1
         | SelfWithoutRouter \<Rightarrow> Throw TypeError w1
         | SelfWithRouter \<Rightarrow>
             Normal (w1\<lparr>state_go := state_go w @ [target],
                       debug_log := debug_log w1 @ [NavTo (name toState)]\<rparr>))"
proof -
  have "forEach_claims self tok (pre @ r # post) (False, w) =
     (let w1 = w\<lparr>defaultPrevented := True,
                 debug_log := debug_log w
                   @ map (\<lambda>p. ClaimFound (req_type p) (req_value p)) pre
                   @ [ClaimState (req_type r) (req_value r) target]\<rparr>
      in case self of
           SelfUnbound \<Rightarrow> Throw ReferenceError w1
         | SelfWithoutRouter \<Rightarrow> Throw TypeError w1
         | SelfWithRouter \<Rightarrow> Normal (True, w1\<lparr>state_go := state_go w @ [target]\<rparr>))"
    using assms(2,5,6,7,8)
    by (cases self)
      (simp_all add: forEach_claims_first_unmet [OF assms(2,4,5)] on_claim_def debug_def Let_def)
  with assms(1,3) show ?thesis
    by (cases self) (simp_all add: authenticateState_def debug_def Let_def)
qed

lemma unmet_requirement_without_fallback:
  assumes "authenticate (data_or_empty (data toState)) = Some True"
    and "claims tok = Some cs"
    and "claims_or_empty (data_claims (data_or_empty (data toState))) = pre @ r # post"
    and "\<forall>p\<in>set pre. search_claims p cs False"
    and "\<not> search_claims r cs False"
    and "\<not> truthy (req_redirect r)" and "\<not> truthy (req_state r)"
  shows "authenticateState self (Some tok) toState w =
     Throw (Error ''somebody didnt specify a claim.state or claim.redirect'')
       (w\<lparr>debug_log := debug_log w @ map (\<lambda>p. ClaimFound (req_type p) (req_value p)) pre\<rparr>)"
proof -
  have "forEach_claims self tok (pre @ r # post) (False, w) =
      Throw (Error ''somebody didnt specify a claim.state or claim.redirect'')
       (w\<lparr>debug_log := debug_log w @ map (\<lambda>p. ClaimFound (req_type p) (req_value p)) pre\<rparr>)"
    using assms(2,5,6,7)
    by (simp add: forEach_claims_first_unmet [OF assms(2,4,5)] on_claim_def)
  with assms(1,3) show ?thesis
    by (simp add: authenticateState_def)
qed

lemma all_requirements_met:
  assumes "authenticate (data_or_empty (data toState)) = Some True"
    and "claims tok = Some cs"
    and "\<forall>r\<in>set (claims_or_empty (data_claims (data_or_empty (data toState)))).
           search_claims r cs False"
  shows "authenticateState self (Some tok) toState w =
     Normal (w\<lparr>debug_log := debug_log w
               @ map (\<lambda>r. ClaimFound (req_type r) (req_value r))
                   (claims_or_empty (data_claims (data_or_empty (data toState))))
               @ [NavTo (name toState)]\<rparr>)"
  using forEach_claims_met [OF assms(2,3), of self w] assms(1)
  by (simp add: authenticateState_def debug_def)

text \<open>
  A token without a \<open>claims\<close> field: \<open>token.claims.forEach\<close> is a TypeError at the first
  requirement, and without requirements the field is never read.
\<close>

lemma token_without_claims:
  assumes "authenticate (data_or_empty (data toState)) = Some True"
    and "claims tok = None"
  shows "authenticateState self (Some tok) toState w =
     (if claims_or_empty (data_claims (data_or_empty (data toState))) = []
      then Normal (w\<lparr>debug_log := debug_log w @ [NavTo (name toState)]\<rparr>)
      else Throw TypeError w)"
proof (cases "claims_or_empty (data_claims (data_or_empty (data toState)))")
  case Nil
  with assms(1) show ?thesis
    by (simp add: authenticateState_def debug_def)
next
  case (Cons r rs)
  have "forEach_claims self tok (r # rs) (False, w) = Throw TypeError w"
    using assms(2) by (simp add: on_claim_def)
  with assms(1) Cons show ?thesis
    by (simp add: authenticateState_def)
qed

section \<open>Token refresh\<close>

text \<open>What \<open>check\<close> leaves on the root scope, for every candidate and every stored token.\<close>

lemma check_exact:
  "rootScope_token (check getToken w) =
     (if getToken = None \<and> rootScope_token w = None then rootScope_token w
      else if expires_at (or_empty getToken) = expires_at (or_empty (rootScope_token w))
      then rootScope_token w
      else Some (or_empty getToken))"
  by (simp add: check_def debug_def Let_def)

text \<open>
  When every token that \<open>getToken\<close> returns carries \<open>expires_at\<close>, the stored token is
  absent, carries \<open>expires_at\<close>, or is the \<open>{}\<close> that \<open>check\<close> stored.
\<close>

lemma check_keeps_store_shape:
  assumes "\<forall>t. getToken = Some t \<longrightarrow> expires_at t \<noteq> None"
    and "\<forall>t. rootScope_token w = Some t \<longrightarrow> expires_at t \<noteq> None \<or> t = empty_token"
  shows "\<forall>t. rootScope_token (check getToken w) = Some t
           \<longrightarrow> expires_at t \<noteq> None \<or> t = empty_token"
  using assms
  by (cases getToken; cases "rootScope_token w")
    (auto simp: check_def debug_def Let_def split: if_splits)

lemma replace_dots_nth:
  "i < length s \<Longrightarrow> replace_dots s ! i = (if s ! i = CHR ''.'' then CHR ''-'' else s ! i)"
  by (simp add: replace_dots_def)

section \<open>The claims\<close>

subsection \<open>C1: requirements after the first failing one\<close>

text \<open>
  C1, as stated: once one requirement has failed, each failing requirement after it is
  also evaluated and can trigger its own redirect or state navigation. The callback
  returns at its guard \<open>if (claimFailed) return\<close> instead. With the token of the
  scenarios and two failing requirements, the second one's redirect \<open>/b\<close> is never
  assigned, and neither is its state \<open>denied\<close> passed to the router, even when the
  router can be reached.
\<close>

theorem compounding_redirects_counterexample:
  "\<not> search_claims (require ''role'' ''owner'' (Some ''/a'') None)
        [\<lparr>c_type = JStr ''role'', c_value = JStr ''admin''\<rparr>] False
   \<and> \<not> search_claims (require ''team'' ''core'' (Some ''/b'') None)
        [\<lparr>c_type = JStr ''role'', c_value = JStr ''admin''\<rparr>] False
   \<and> \<not> search_claims (require ''team'' ''core'' None (Some ''denied''))
        [\<lparr>c_type = JStr ''role'', c_value = JStr ''admin''\<rparr>] False
   \<and> window_location (world_of (authenticateState SelfWithRouter (Some admin_token)
        (guarded_state [require ''role'' ''owner'' (Some ''/a'') None,
                        require ''team'' ''core'' (Some ''/b'') None]) initial_world))
      = [''/a'']
   \<and> window_location (world_of (authenticateState SelfWithRouter (Some admin_token)
        (guarded_state [require ''role'' ''owner'' (Some ''/a'') None,
                        require ''team'' ''core'' None (Some ''denied'')]) initial_world))
      = [''/a'']
   \<and> state_go (world_of (authenticateState SelfWithRouter (Some admin_token)
        (guarded_state [require ''role'' ''owner'' (Some ''/a'') None,
                        require ''team'' ''core'' None (Some ''denied'')]) initial_world))
      = []"
  by (simp add: authenticateState_def on_claim_def debug_def guarded_state_def require_def
      admin_token_def initial_world_def)

text \<open>
  C1, amended: the loop has no early exit of its own: unless the callback throws at the
  failing requirement, it is still called on every later requirement, but each of these
  calls returns at once. A requirement after an unmet one is not matched against the
  token and causes no redirect, no state navigation, no cancellation, no log line and
  no error: the guard does exactly what it does on the list that ends at the unmet
  requirement.
\<close>

theorem later_requirements_are_skipped:
  assumes "claims tok = Some cs" and "\<not> search_claims r cs False"
  shows "authenticateState self (Some tok)
           (toState\<lparr>data := Some (d\<lparr>data_claims := Some (pre @ r # post)\<rparr>)\<rparr>) w
       = authenticateState self (Some tok)
           (toState\<lparr>data := Some (d\<lparr>data_claims := Some (pre @ [r])\<rparr>)\<rparr>) w"
proof -
  have "forEach_claims self tok (pre @ r # post) (False, w)
      = forEach_claims self tok (pre @ [r]) (False, w)"
    by (simp only: forEach_claims_append forEach_claims_after_unmet [OF assms, of self post])
  then show ?thesis
    by (simp add: authenticateState_def Let_def split: completion.splits)
qed

theorem later_requirements_are_skipped_witness:
  "claims admin_token = Some [\<lparr>c_type = JStr ''role'', c_value = JStr ''admin''\<rparr>]
   \<and> \<not> search_claims (require ''role'' ''owner'' (Some ''/a'') None)
         [\<lparr>c_type = JStr ''role'', c_value = JStr ''admin''\<rparr>] False
   \<and> authenticateState SelfWithRouter (Some admin_token)
        (guarded_state [require ''role'' ''owner'' (Some ''/a'') None,
                        require ''team'' ''core'' (Some ''/b'') None]) initial_world
      = authenticateState SelfWithRouter (Some admin_token)
        (guarded_state [require ''role'' ''owner'' (Some ''/a'') None]) initial_world"
proof -
  let ?a = "require ''role'' ''owner'' (Some ''/a'') None"
  let ?b = "require ''team'' ''core'' (Some ''/b'') None"
  let ?cs = "[\<lparr>c_type = JStr ''role'', c_value = JStr ''admin''\<rparr>]"
  have h1: "claims admin_token = Some ?cs"
    by (simp add: admin_token_def)
  have h2: "\<not> search_claims ?a ?cs False"
    by (simp add: require_def)
  show ?thesis
    using h1 h2 later_requirements_are_skipped [OF h1 h2, where self = SelfWithRouter
        and toState = "guarded_state []"
        and d = "\<lparr>authenticate = Some True, data_claims = None, title = Some ''Secret''\<rparr>"
        and pre = "[]" and post = "[?b]" and w = initial_world]
    by (simp add: guarded_state_def)
qed

subsection \<open>C2: the first unmet requirement wins\<close>

text \<open>
  C2: on a state that asks for authentication, with a token present, the first unmet
  requirement alone decides what the guard does. The values assigned to
  \<open>window.location\<close> and the names passed to the router during the call are those of
  that requirement's fallback and of no later one; without an unmet requirement, and
  for a token without a \<open>claims\<close> field, nothing is assigned, navigated or cancelled.
  So one evaluation adds at most one redirect, by one mechanism.
\<close>

theorem first_unmet_requirement_wins:
  assumes "authenticate (data_or_empty (data toState)) = Some True"
  shows "let res = authenticateState self (Some tok) toState w; w' = world_of res in
     (case claims tok of
        None \<Rightarrow>
          defaultPrevented w' = defaultPrevented w
          \<and> window_location w' = window_location w \<and> state_go w' = state_go w
      | Some cs \<Rightarrow>
          (case find (\<lambda>r. \<not> search_claims r cs False)
                  (claims_or_empty (data_claims (data_or_empty (data toState)))) of
             None \<Rightarrow>
               thrown res = None \<and> defaultPrevented w' = defaultPrevented w
               \<and> window_location w' = window_location w \<and> state_go w' = state_go w
           | Some r \<Rightarrow>
               window_location w' = window_location w
                 @ (if truthy (req_redirect r) then [js_string (req_redirect r)] else [])
               \<and> state_go w' = state_go w
                 @ (if truthy (req_redirect r) then []
                    else if truthy (req_state r) \<and> self = SelfWithRouter
                    then [js_string (req_state r)] else [])
               \<and> defaultPrevented w' =
                   (defaultPrevented w \<or> truthy (req_redirect r) \<or> truthy (req_state r))))
     \<and> length (window_location w') + length (state_go w')
         \<le> length (window_location w) + length (state_go w) + 1"
proof (cases "claims tok")
  case None
  from token_without_claims [OF assms None, of self w] None show ?thesis
    by (simp add: Let_def)
next
  case (Some cs)
  note cs = Some
  show ?thesis
  proof (cases "find (\<lambda>r. \<not> search_claims r cs False)
             (claims_or_empty (data_claims (data_or_empty (data toState))))")
    case None
    then have "\<forall>r\<in>set (claims_or_empty (data_claims (data_or_empty (data toState)))).
        search_claims r cs False"
      by (auto dest: find_None_all)
    from all_requirements_met [OF assms cs this, of self w] cs None show ?thesis
      by (simp add: Let_def)
  next
    case (Some r)
    from find_Some_split [OF Some] obtain pre post
      where split: "claims_or_empty (data_claims (data_or_empty (data toState))) = pre @ r # post"
        and unmet: "\<not> search_claims r cs False"
        and met: "\<forall>p\<in>set pre. search_claims p cs False"
      by auto
    show ?thesis
    proof (cases "truthy (req_redirect r)")
      case True
      then obtain target where t: "req_redirect r = Some target" "target \<noteq> []"
        by (cases "req_redirect r") auto
      from unmet_requirement_redirect [OF assms cs split met unmet t, of self w] cs Some t
      show ?thesis by (simp add: Let_def)
    next
      case noredirect: False
      show ?thesis
      proof (cases "truthy (req_state r)")
        case True
        then obtain target where t: "req_state r = Some target" "target \<noteq> []"
          by (cases "req_state r") auto
        from unmet_requirement_state [OF assms cs split met unmet noredirect t, of self w]
          cs Some t noredirect
        show ?thesis by (cases self) (simp_all add: Let_def)
      next
        case False
        from unmet_requirement_without_fallback
          [OF assms cs split met unmet noredirect False, of self w]
          cs Some noredirect False
        show ?thesis by (simp add: Let_def)
      qed
    qed
  qed
qed

theorem first_unmet_requirement_wins_witness:
  "find (\<lambda>r. \<not> search_claims r [\<lparr>c_type = JStr ''role'', c_value = JStr ''admin''\<rparr>] False)
      [require ''role'' ''admin'' (Some ''/ok'') None,
       require ''role'' ''owner'' (Some ''/denied'') None,
       require ''team'' ''core'' None (Some ''other'')]
    = Some (require ''role'' ''owner'' (Some ''/denied'') None)
   \<and> window_location (world_of (authenticateState SelfWithRouter (Some admin_token)
        (guarded_state [require ''role'' ''admin'' (Some ''/ok'') None,
                        require ''role'' ''owner'' (Some ''/denied'') None,
                        require ''team'' ''core'' None (Some ''other'')]) initial_world))
      = [''/denied'']
   \<and> state_go (world_of (authenticateState SelfWithRouter (Some admin_token)
        (guarded_state [require ''role'' ''admin'' (Some ''/ok'') None,
                        require ''role'' ''owner'' (Some ''/denied'') None,
                        require ''team'' ''core'' None (Some ''other'')]) initial_world))
      = []
   \<and> defaultPrevented (world_of (authenticateState SelfWithRouter (Some admin_token)
        (guarded_state [require ''role'' ''admin'' (Some ''/ok'') None,
                        require ''role'' ''owner'' (Some ''/denied'') None,
                        require ''team'' ''core'' None (Some ''other'')]) initial_world))"
proof -
  let ?s = "guarded_state [require ''role'' ''admin'' (Some ''/ok'') None,
                        require ''role'' ''owner'' (Some ''/denied'') None,
                        require ''team'' ''core'' None (Some ''other'')]"
  let ?cs = "[\<lparr>c_type = JStr ''role'', c_value = JStr ''admin''\<rparr>]"
  have h1: "authenticate (data_or_empty (data ?s)) = Some True"
    by (simp add: guarded_state_def)
  have h2: "claims admin_token = Some ?cs"
    by (simp add: admin_token_def)
  have rs: "claims_or_empty (data_claims (data_or_empty (data ?s)))
     = [require ''role'' ''admin'' (Some ''/ok'') None,
        require ''role'' ''owner'' (Some ''/denied'') None,
        require ''team'' ''core'' None (Some ''other'')]"
    by (simp add: guarded_state_def)
  have f: "find (\<lambda>r. \<not> search_claims r ?cs False)
      [require ''role'' ''admin'' (Some ''/ok'') None,
       require ''role'' ''owner'' (Some ''/denied'') None,
       require ''team'' ''core'' None (Some ''other'')]
    = Some (require ''role'' ''owner'' (Some ''/denied'') None)"
    by (simp add: require_def)
  show ?thesis
    using first_unmet_requirement_wins [OF h1, of SelfWithRouter admin_token initial_world]
    unfolding rs h2 f Let_def
    by (simp add: require_def initial_world_def f)
qed

subsection \<open>C3: no token\<close>

text \<open>
  C3: on a state that asks for authentication, without a token, the event is cancelled
  and \<open>window.location\<close> is set to \<open>/login?redirect=\<close> followed by the state's \<open>url\<close>
  (read as a string: a state without \<open>url\<close> gives \<open>undefined\<close>). The call returns, and
  nothing else changes but the log.
\<close>

theorem missing_token_redirects_to_login:
  assumes "authenticate (data_or_empty (data toState)) = Some True"
  shows "authenticateState self None toState w =
     Normal (w\<lparr>defaultPrevented := True,
               window_location :=
                 window_location w @ [''/login?redirect='' @ js_string (url toState)],
               debug_log := debug_log w @ [NavLogin (name toState)]\<rparr>)"
  using assms by (simp add: authenticateState_def debug_def)

theorem missing_token_redirects_to_login_witness:
  "authenticate (data_or_empty (data (guarded_state []))) = Some True
   \<and> url (guarded_state []) = Some ''/secret''
   \<and> authenticateState SelfWithoutRouter None (guarded_state []) initial_world =
       Normal (initial_world\<lparr>defaultPrevented := True,
                 window_location := [''/login?redirect=/secret''],
                 debug_log := [NavLogin ''app.secret'']\<rparr>)"
proof -
  have h: "authenticate (data_or_empty (data (guarded_state []))) = Some True"
    by (simp add: guarded_state_def)
  show ?thesis
    using h missing_token_redirects_to_login [OF h, of SelfWithoutRouter initial_world]
    by (simp add: guarded_state_def initial_world_def)
qed

subsection \<open>C4: no authentication asked\<close>

text \<open>
  C4: on a state whose \<open>authenticate\<close> is not true (false, absent, or no \<open>data\<close> at all)
  the guard returns after its log line, for every token, present or not, and every list
  of requirements: the event is not cancelled, nothing is assigned to
  \<open>window.location\<close>, the router is not called, no claim is searched and nothing is
  thrown.
\<close>

theorem unauthenticated_state_passes:
  assumes "authenticate (data_or_empty (data toState)) \<noteq> Some True"
  shows "authenticateState self tok toState w =
     Normal (w\<lparr>debug_log := debug_log w @ [NavUnauth (name toState)]\<rparr>)"
  using assms by (simp add: authenticateState_def debug_def)

text \<open>
  The witness takes inputs on which an evaluation of the claims would throw: a token
  without \<open>claims\<close> and a requirement without fallback.
\<close>

theorem unauthenticated_state_passes_witness:
  "authenticate (data_or_empty (data (public_state [require ''role'' ''owner'' None None])))
     \<noteq> Some True
   \<and> authenticateState SelfWithoutRouter (Some empty_token)
        (public_state [require ''role'' ''owner'' None None]) initial_world
      = Normal (initial_world\<lparr>debug_log := [NavUnauth ''app.public'']\<rparr>)
   \<and> authenticateState SelfWithoutRouter None
        \<lparr>name = ''home'', url = None, data = None\<rparr> initial_world
      = Normal (initial_world\<lparr>debug_log := [NavUnauth ''home'']\<rparr>)"
proof -
  have h1: "authenticate (data_or_empty (data (public_state [require ''role'' ''owner'' None None])))
     \<noteq> Some True"
    by (simp add: public_state_def)
  have h2: "authenticate (data_or_empty (data \<lparr>name = ''home'', url = None, data = None\<rparr>))
     \<noteq> Some True"
    by simp
  show ?thesis
    using h1
      unauthenticated_state_passes [OF h1, of SelfWithoutRouter "Some empty_token" initial_world]
      unauthenticated_state_passes [OF h2, of SelfWithoutRouter None initial_world]
    by (simp add: public_state_def initial_world_def)
qed

subsection \<open>C5: an unmet requirement without fallback\<close>

text \<open>
  C5: when the guard evaluates an unmet requirement that sets neither \<open>redirect\<close> nor
  \<open>state\<close> (every requirement before it is met, so the callback reaches it with
  \<open>claimFailed\<close> unset), it throws the error there. The throw leaves the guard: the
  event is not cancelled, nothing is redirected, the requirements after it are not
  visited and the closing log line is not written.
\<close>

theorem missing_fallback_throws:
  assumes "authenticate (data_or_empty (data toState)) = Some True"
    and "claims tok = Some cs"
    and "claims_or_empty (data_claims (data_or_empty (data toState))) = pre @ r # post"
    and "\<forall>p\<in>set pre. search_claims p cs False"
    and "\<not> search_claims r cs False"
    and "\<not> truthy (req_redirect r)" and "\<not> truthy (req_state r)"
  shows "authenticateState self (Some tok) toState w =
     Throw (Error ''somebody didnt specify a claim.state or claim.redirect'')
       (w\<lparr>debug_log := debug_log w @ map (\<lambda>p. ClaimFound (req_type p) (req_value p)) pre\<rparr>)"
  using assms by (rule unmet_requirement_without_fallback)

theorem missing_fallback_throws_witness:
  "authenticateState SelfWithRouter (Some admin_token)
      (guarded_state [require ''role'' ''admin'' (Some ''/denied'') None,
                      require ''role'' ''owner'' None None,
                      require ''team'' ''core'' (Some ''/later'') None]) initial_world
    = Throw (Error ''somebody didnt specify a claim.state or claim.redirect'')
        (initial_world\<lparr>debug_log := [ClaimFound (JStr ''role'') (JStr ''admin'')]\<rparr>)"
proof -
  let ?a = "require ''role'' ''admin'' (Some ''/denied'') None"
  let ?b = "require ''role'' ''owner'' None None"
  let ?c = "require ''team'' ''core'' (Some ''/later'') None"
  let ?cs = "[\<lparr>c_type = JStr ''role'', c_value = JStr ''admin''\<rparr>]"
  have h1: "authenticate (data_or_empty (data (guarded_state [?a, ?b, ?c]))) = Some True"
    by (simp add: guarded_state_def)
  have h2: "claims admin_token = Some ?cs"
    by (simp add: admin_token_def)
  have h3: "claims_or_empty (data_claims (data_or_empty (data (guarded_state [?a, ?b, ?c]))))
      = [?a] @ ?b # [?c]"
    by (simp add: guarded_state_def)
  have h4: "\<forall>p\<in>set [?a]. search_claims p ?cs False"
    by (simp add: require_def)
  have h5: "\<not> search_claims ?b ?cs False"
    by (simp add: require_def)
  have h6: "\<not> truthy (req_redirect ?b)" and h7: "\<not> truthy (req_state ?b)"
    by (simp_all add: require_def)
  show ?thesis
    using missing_fallback_throws [OF h1 h2 h3 h4 h5 h6 h7, of SelfWithRouter initial_world]
    by (simp add: require_def initial_world_def)
qed

subsection \<open>C6: the fallback of an unmet requirement\<close>

text \<open>
  C6 says that an unmet requirement with \<open>state\<close> set cancels the event and has the
  router navigate to that state. The code cancels the event and then evaluates
  \<open>self.$state.go(claim.state)\<close>, where \<open>self\<close> is not a variable of the function or of
  the file. In a browser, where \<open>self\<close> is the window and the window has no \<open>$state\<close>,
  the call throws a TypeError and the router is never asked: the scenario's token on a
  state that asks for (role, owner) with the fallback state \<open>denied\<close>. The half of C6
  about \<open>redirect\<close> is lemma \<open>unmet_requirement_redirect\<close>, and lemma
  \<open>unmet_requirement_state\<close> gives the other half for every binding of \<open>self\<close>.
\<close>

theorem state_fallback_without_router:
  "authenticateState SelfWithoutRouter (Some admin_token)
      (guarded_state [require ''role'' ''owner'' None (Some ''denied'')]) initial_world
    = Throw TypeError
        (initial_world\<lparr>defaultPrevented := True,
           debug_log := [ClaimState (JStr ''role'') (JStr ''owner'') ''denied'']\<rparr>)
   \<and> state_go (world_of (authenticateState SelfWithoutRouter (Some admin_token)
      (guarded_state [require ''role'' ''owner'' None (Some ''denied'')]) initial_world)) = []"
  by (simp add: authenticateState_def on_claim_def debug_def guarded_state_def require_def
      admin_token_def initial_world_def)

subsection \<open>C7: change detection in check\<close>

text \<open>
  C7, as stated: \<open>check\<close> leaves the stored token as it is when candidate and stored
  token are both absent and when both are present with equal \<open>expires_at\<close>; otherwise
  it stores the candidate, an absent candidate normalised to an empty-claims token
  record. What \<open>token || {}\<close> stores is the bare object \<open>{}\<close>: its \<open>claims\<close> field is
  absent, it is not an empty collection. With the scenario's token stored and the
  candidate gone, the stored record is not the token with an empty claims list, and the
  guard tells the two apart: on the stored record it throws a TypeError at
  \<open>token.claims.forEach\<close>, on a token with an empty claims list it takes the
  requirement's redirect.
\<close>

theorem check_stores_bare_object_counterexample:
  "rootScope_token (check None (initial_world\<lparr>rootScope_token := Some admin_token\<rparr>))
     \<noteq> Some \<lparr>expires_at = None, claims = Some []\<rparr>
   \<and> rootScope_token (check None (initial_world\<lparr>rootScope_token := Some admin_token\<rparr>))
     = Some \<lparr>expires_at = None, claims = None\<rparr>
   \<and> authenticateState SelfWithoutRouter
        (rootScope_token (check None (initial_world\<lparr>rootScope_token := Some admin_token\<rparr>)))
        (guarded_state [require ''role'' ''admin'' (Some ''/denied'') None]) initial_world
      = Throw TypeError initial_world
   \<and> authenticateState SelfWithoutRouter (Some \<lparr>expires_at = None, claims = Some []\<rparr>)
        (guarded_state [require ''role'' ''admin'' (Some ''/denied'') None]) initial_world
      = Normal (initial_world\<lparr>defaultPrevented := True,
                  window_location := [''/denied''],
                  debug_log := [ClaimRedirect (JStr ''role'') (JStr ''admin'') ''/denied'',
                                NavTo ''app.secret'']\<rparr>)"
  by (simp add: check_def authenticateState_def on_claim_def debug_def Let_def
      guarded_state_def require_def admin_token_def empty_token_def initial_world_def)

text \<open>
  C7, amended: \<open>check\<close> leaves the stored token as it is when candidate and stored token
  are both absent and when both are present with equal \<open>expires_at\<close>; otherwise it
  stores the candidate, an absent candidate as the empty object \<open>{}\<close>, a record with
  neither \<open>expires_at\<close> nor a \<open>claims\<close> collection. The tokens are those of the data
  model: a token that \<open>getToken\<close> returns carries \<open>expires_at\<close>, and so the stored token
  carries it or is the \<open>{}\<close> stored by an earlier \<open>check\<close> (lemma
  \<open>check_keeps_store_shape\<close>). On a stored \<open>{}\<close> and an absent candidate the comparison
  of the two absent \<open>expires_at\<close> skips the assignment, and the store holds \<open>{}\<close> either
  way. Lemma \<open>check_exact\<close> is the statement without the assumptions.
\<close>

theorem check_change_detection:
  assumes "\<forall>t. getToken = Some t \<longrightarrow> expires_at t \<noteq> None"
    and "\<forall>t. rootScope_token w = Some t
           \<longrightarrow> expires_at t \<noteq> None \<or> t = \<lparr>expires_at = None, claims = None\<rparr>"
  shows "rootScope_token (check getToken w) =
     (case (getToken, rootScope_token w) of
        (None, None) \<Rightarrow> None
      | (Some t, Some orig) \<Rightarrow> if expires_at t = expires_at orig then Some orig else Some t
      | (Some t, None) \<Rightarrow> Some t
      | (None, Some orig) \<Rightarrow> Some \<lparr>expires_at = None, claims = None\<rparr>)"
proof (cases getToken)
  case None
  show ?thesis
  proof (cases "rootScope_token w")
    case None
    with \<open>getToken = None\<close> show ?thesis
      by (simp add: check_exact)
  next
    case (Some orig)
    with assms(2)
    have "expires_at orig \<noteq> None \<or> orig = \<lparr>expires_at = None, claims = None\<rparr>"
      by simp
    with Some \<open>getToken = None\<close> show ?thesis
      by (auto simp: check_exact empty_token_def)
  qed
next
  case (Some t)
  with assms(1) have t: "expires_at t \<noteq> None" by simp
  show ?thesis
  proof (cases "rootScope_token w")
    case None
    with Some t show ?thesis
      by (auto simp: check_exact empty_token_def)
  next
    case (Some orig)
    with \<open>getToken = Some t\<close> show ?thesis
      by (simp add: check_exact)
  qed
qed

text \<open>
  The witness runs the five cases: nothing stored and no candidate; a first token; the
  same expiry with other claims (kept: only \<open>expires_at\<close> is compared); another expiry;
  the candidate gone.
\<close>

theorem check_change_detection_witness:
  "rootScope_token (check None initial_world) = None
   \<and> rootScope_token (check (Some admin_token) initial_world) = Some admin_token
   \<and> rootScope_token (check (Some (admin_token\<lparr>claims := Some []\<rparr>))
        (initial_world\<lparr>rootScope_token := Some admin_token\<rparr>)) = Some admin_token
   \<and> rootScope_token (check (Some (admin_token\<lparr>expires_at := Some 200\<rparr>))
        (initial_world\<lparr>rootScope_token := Some admin_token\<rparr>))
      = Some (admin_token\<lparr>expires_at := Some 200\<rparr>)
   \<and> rootScope_token (check None (initial_world\<lparr>rootScope_token := Some admin_token\<rparr>))
      = Some \<lparr>expires_at = None, claims = None\<rparr>"
proof -
  let ?w = "initial_world\<lparr>rootScope_token := Some admin_token\<rparr>"
  have n: "\<forall>t. (None :: token option) = Some t \<longrightarrow> expires_at t \<noteq> None"
    by simp
  have a: "\<forall>t. Some admin_token = Some t \<longrightarrow> expires_at t \<noteq> None"
    by (simp add: admin_token_def)
  have b: "\<forall>t. Some (admin_token\<lparr>claims := Some []\<rparr>) = Some t \<longrightarrow> expires_at t \<noteq> None"
    by (simp add: admin_token_def)
  have c: "\<forall>t. Some (admin_token\<lparr>expires_at := Some 200\<rparr>) = Some t \<longrightarrow> expires_at t \<noteq> None"
    by simp
  have w0: "\<forall>t. rootScope_token initial_world = Some t
      \<longrightarrow> expires_at t \<noteq> None \<or> t = \<lparr>expires_at = None, claims = None\<rparr>"
    by (simp add: initial_world_def)
  have w1: "\<forall>t. rootScope_token ?w = Some t
      \<longrightarrow> expires_at t \<noteq> None \<or> t = \<lparr>expires_at = None, claims = None\<rparr>"
    by (simp add: admin_token_def)
  show ?thesis
    using check_change_detection [OF n w0] check_change_detection [OF a w0]
      check_change_detection [OF b w1] check_change_detection [OF c w1]
      check_change_detection [OF n w1]
    by (simp add: initial_world_def admin_token_def)
qed

subsection \<open>C8: every requirement met\<close>

text \<open>
  C8: on a state that asks for authentication, with a token whose claims contain, for
  every requirement, a claim with loosely equal \<open>type\<close> and loosely equal \<open>value\<close>
  (membership in the collection, whatever its order), the guard returns without
  cancelling the event, assigning \<open>window.location\<close> or calling the router: it only
  writes one log line for each requirement and the closing one.
\<close>

theorem satisfied_claims_pass:
  assumes "authenticate (data_or_empty (data toState)) = Some True"
    and "claims tok = Some cs"
    and "\<forall>r\<in>set (claims_or_empty (data_claims (data_or_empty (data toState)))).
           \<exists>c\<in>set cs. loose_eq (req_type r) (c_type c) \<and> loose_eq (req_value r) (c_value c)"
  shows "authenticateState self (Some tok) toState w =
     Normal (w\<lparr>debug_log := debug_log w
               @ map (\<lambda>r. ClaimFound (req_type r) (req_value r))
                   (claims_or_empty (data_claims (data_or_empty (data toState))))
               @ [NavTo (name toState)]\<rparr>)"
proof -
  from assms(3)
  have "\<forall>r\<in>set (claims_or_empty (data_claims (data_or_empty (data toState)))).
      search_claims r cs False"
    by (simp add: search_claims_iff)
  with assms(1,2) show ?thesis
    by (rule all_requirements_met)
qed

text \<open>
  The witness: a token holding (team, core) and (role, admin), in this order, on a state
  that asks for (role, admin) and for a claim of type \<open>team\<close> whose value the
  requirement leaves out; the token's \<open>null\<close> value would match it as well.
\<close>

theorem satisfied_claims_pass_witness:
  "authenticateState SelfWithoutRouter
      (Some \<lparr>expires_at = Some 100,
             claims = Some [\<lparr>c_type = JStr ''team'', c_value = JNull\<rparr>,
                            \<lparr>c_type = JStr ''role'', c_value = JStr ''admin''\<rparr>]\<rparr>)
      (guarded_state [require ''role'' ''admin'' (Some ''/denied'') None,
                      \<lparr>req_type = JStr ''team'', req_value = JUndefined,
                        req_redirect = Some ''/denied'', req_state = None\<rparr>])
      initial_world
    = Normal (initial_world\<lparr>debug_log :=
          [ClaimFound (JStr ''role'') (JStr ''admin''),
           ClaimFound (JStr ''team'') JUndefined, NavTo ''app.secret'']\<rparr>)"
proof -
  let ?rs = "[require ''role'' ''admin'' (Some ''/denied'') None,
              \<lparr>req_type = JStr ''team'', req_value = JUndefined,
                req_redirect = Some ''/denied'', req_state = None\<rparr>]"
  let ?cs = "[\<lparr>c_type = JStr ''team'', c_value = JNull\<rparr>,
              \<lparr>c_type = JStr ''role'', c_value = JStr ''admin''\<rparr>]"
  let ?tok = "\<lparr>expires_at = Some 100, claims = Some ?cs\<rparr>"
  have h1: "authenticate (data_or_empty (data (guarded_state ?rs))) = Some True"
    by (simp add: guarded_state_def)
  have h2: "claims ?tok = Some ?cs"
    by simp
  have h3: "\<forall>r\<in>set (claims_or_empty (data_claims (data_or_empty (data (guarded_state ?rs))))).
           \<exists>c\<in>set ?cs. loose_eq (req_type r) (c_type c) \<and> loose_eq (req_value r) (c_value c)"
    by (simp add: guarded_state_def require_def)
  show ?thesis
    using satisfied_claims_pass [OF h1 h2 h3, of SelfWithoutRouter initial_world]
    by (simp add: guarded_state_def require_def initial_world_def)
qed

subsection \<open>C9: the state annotator\<close>

text \<open>
  C9: for a state with a non-empty name, \<open>onStateChange\<close> sets \<open>document.title\<close> to
  \<open>data.title\<close> when that field is set (present and not the empty string; otherwise the
  title stays) and sets \<open>$rootScope.stateName\<close> to the name with every \<open>.\<close> replaced by
  \<open>-\<close> and every other character in place. For a state with an empty name it changes
  nothing.
\<close>

theorem onStateChange_annotates:
  "(name toState \<noteq> [] \<longrightarrow>
      rootScope_stateName (onStateChange app toState w) = Some (replace_dots (name toState))
      \<and> document_title (onStateChange app toState w) =
          (case data toState of
             None \<Rightarrow> document_title w
           | Some d \<Rightarrow>
               (case title d of
                  None \<Rightarrow> document_title w
                | Some t \<Rightarrow> if t = [] then document_title w else t)))
   \<and> (name toState = [] \<longrightarrow> onStateChange app toState w = w)
   \<and> length (replace_dots (name toState)) = length (name toState)
   \<and> (\<forall>i<length (name toState).
         replace_dots (name toState) ! i =
           (if name toState ! i = CHR ''.'' then CHR ''-'' else name toState ! i))"
proof -
  have a: "name toState \<noteq> [] \<longrightarrow>
      rootScope_stateName (onStateChange app toState w) = Some (replace_dots (name toState))"
    by (simp add: onStateChange_def debug_def Let_def split: option.splits)
  have b: "name toState \<noteq> [] \<longrightarrow> document_title (onStateChange app toState w) =
          (case data toState of
             None \<Rightarrow> document_title w
           | Some d \<Rightarrow>
               (case title d of
                  None \<Rightarrow> document_title w
                | Some t \<Rightarrow> if t = [] then document_title w else t))"
    by (simp add: onStateChange_def debug_def Let_def split: option.splits)
  have c: "name toState = [] \<longrightarrow> onStateChange app toState w = w"
    by (simp add: onStateChange_def)
  have d: "length (replace_dots (name toState)) = length (name toState)"
    by (simp add: replace_dots_def)
  from a b c d replace_dots_nth show ?thesis by blast
qed

theorem onStateChange_annotates_witness:
  "rootScope_stateName (onStateChange ''app'' (guarded_state []) initial_world)
     = Some ''app-secret''
   \<and> document_title (onStateChange ''app'' (guarded_state []) initial_world) = ''Secret''
   \<and> onStateChange ''app''
        \<lparr>name = [], url = Some ''^'',
          data = Some \<lparr>authenticate = None, data_claims = None, title = Some ''Start''\<rparr>\<rparr>
        initial_world
      = initial_world"
proof -
  let ?e = "\<lparr>name = [], url = Some ''^'',
          data = Some \<lparr>authenticate = None, data_claims = None, title = Some ''Start''\<rparr>\<rparr>"
  have n: "name (guarded_state []) \<noteq> []" and e: "name ?e = []"
    by (simp_all add: guarded_state_def)
  show ?thesis
    using n e onStateChange_annotates [of "guarded_state []" "''app''" initial_world]
      onStateChange_annotates [of ?e "''app''" initial_world]
    by (simp add: guarded_state_def replace_dots_def)
qed

subsection \<open>C10: a token without claims\<close>

text \<open>
  C10: when the token is present and has no \<open>claims\<close> field, as the \<open>{}\<close> that \<open>check\<close>
  stores for an absent candidate, the guard on a state that asks for authentication
  and has at least one requirement throws a TypeError at \<open>token.claims.forEach\<close>: the
  event is not cancelled, nothing is redirected, and the error for a missing fallback
  is not reached.
\<close>

theorem token_without_claims_throws:
  assumes "authenticate (data_or_empty (data toState)) = Some True"
    and "claims_or_empty (data_claims (data_or_empty (data toState))) \<noteq> []"
    and "claims tok = None"
  shows "authenticateState self (Some tok) toState w = Throw TypeError w"
  using token_without_claims [OF assms(1,3), of self w] assms(2) by simp

theorem token_without_claims_throws_witness:
  "rootScope_token (check None (initial_world\<lparr>rootScope_token := Some admin_token\<rparr>))
     = Some empty_token
   \<and> claims empty_token = None
   \<and> authenticateState SelfWithRouter (Some empty_token)
        (guarded_state [require ''role'' ''admin'' None None])
        (check None (initial_world\<lparr>rootScope_token := Some admin_token\<rparr>))
      = Throw TypeError (check None (initial_world\<lparr>rootScope_token := Some admin_token\<rparr>))"
proof -
  have h1: "authenticate (data_or_empty (data
      (guarded_state [require ''role'' ''admin'' None None]))) = Some True"
    by (simp add: guarded_state_def)
  have h2: "claims_or_empty (data_claims (data_or_empty (data
      (guarded_state [require ''role'' ''admin'' None None])))) \<noteq> []"
    by (simp add: guarded_state_def)
  have h3: "claims empty_token = None"
    by (simp add: empty_token_def)
  have h4: "rootScope_token (check None (initial_world\<lparr>rootScope_token := Some admin_token\<rparr>))
     = Some empty_token"
    by (simp add: check_def debug_def Let_def admin_token_def empty_token_def initial_world_def)
  show ?thesis
    using h3 h4 token_without_claims_throws [OF h1 h2 h3, of SelfWithRouter
        "check None (initial_world\<lparr>rootScope_token := Some admin_token\<rparr>)"]
    by simp
qed

end
